theory Spec2Isabelle
  imports Complex_Main
begin

section \<open>Strings and numbers of the host language\<close>

text \<open>
  Identifiers are JavaScript numbers holding integers; they are modelled as \<open>int\<close>.
  The remainder operator \<open>%\<close> truncates towards zero, so its result has the sign of the
  dividend: \<open>-1 % 5\<close> is \<open>-1\<close>, not \<open>4\<close>.
\<close>

definition js_rem :: "int \<Rightarrow> int \<Rightarrow> int" where
  "js_rem a b = sgn a * (\<bar>a\<bar> mod \<bar>b\<bar>)"

text \<open>
  Reading \<open>xs[k]\<close>: an index outside the array gives \<open>undefined\<close> (\<open>None\<close>), it does
  not raise.
\<close>

definition js_index :: "'a list \<Rightarrow> int \<Rightarrow> 'a option" where
  "js_index xs k = (if 0 \<le> k \<and> k < int (length xs) then Some (xs ! nat k) else None)"

text \<open>\<open>a || b\<close> on a string that may be undefined: undefined and the empty string are falsy.\<close>

definition js_or :: "string option \<Rightarrow> string \<Rightarrow> string" where
  "js_or a b = (case a of None \<Rightarrow> b | Some s \<Rightarrow> if s = [] then b else s)"

text \<open>A string that may be undefined, interpolated into a template literal.\<close>

definition js_template :: "string option \<Rightarrow> string" where
  "js_template a = (case a of None \<Rightarrow> ''undefined'' | Some s \<Rightarrow> s)"

definition decimal_digits :: string where
  "decimal_digits = ''0123456789''"

function show_nat :: "nat \<Rightarrow> string" where
  "show_nat n =
     (if n < 10 then [decimal_digits ! n]
      else show_nat (n div 10) @ [decimal_digits ! (n mod 10)])"
  by pat_completeness auto
termination
  by (relation "measure id") auto

declare show_nat.simps [simp del]

text \<open>
  An integer interpolated into a template literal: all its decimal digits. JavaScript
  prints this way below 1e21 and in exponent form from there on.
\<close>

definition show_int :: "int \<Rightarrow> string" where
  "show_int i = (if i < 0 then CHR ''-'' # show_nat (nat (- i)) else show_nat (nat i))"

definition upper_letters :: string where
  "upper_letters = ''ABCDEFGHIJKLMNOPQRSTUVWXYZ''"

definition lower_letters :: string where
  "lower_letters = ''abcdefghijklmnopqrstuvwxyz''"

definition toLowerChar :: "char \<Rightarrow> char" where
  "toLowerChar c = (case map_of (zip upper_letters lower_letters) c of Some l \<Rightarrow> l | None \<Rightarrow> c)"

definition toLowerCase :: "string \<Rightarrow> string" where
  "toLowerCase s = map toLowerChar s"

text \<open>\<open>s.replace(a, b)\<close> with a string pattern replaces the first occurrence only.\<close>

fun replace_first :: "char \<Rightarrow> char \<Rightarrow> string \<Rightarrow> string" where
  "replace_first a b [] = []"
| "replace_first a b (c # cs) = (if c = a then b # cs else c # replace_first a b cs)"

text \<open>The spec's wording, "spaces replaced by dots": every occurrence.\<close>

definition spaces_to_dots :: "string \<Rightarrow> string" where
  "spaces_to_dots s = map (\<lambda>c. if c = CHR '' '' then CHR ''.'' else c) s"


section \<open>Data model (mocks/server.ts)\<close>

definition MOCK_SERVER_URL :: string where
  "MOCK_SERVER_URL = ''http://localhost:3001''"

record user =
  user_id :: int
  user_name :: string
  user_email :: string
  user_phone :: "string option"
  user_website :: "string option"
  user_company :: "string option"
  user_posts :: "int option"
  user_createdAt :: "string option"

record post =
  post_id :: int
  post_userId :: int
  post_title :: string
  post_body :: string
  post_createdAt :: "string option"


section \<open>The environment: network, random source, clock, observable effects\<close>

text \<open>
  \<open>fetch(url)\<close> either rejects (the server cannot be reached) or resolves with a response
  carrying the \<open>ok\<close> flag and a body; \<open>response.json()\<close> either yields the parsed value,
  taken to be of the interface the endpoint serves, or rejects.
\<close>

datatype 'a body = Json 'a | SyntaxError

datatype 'a fetch_outcome = NetworkError | Response bool "'a body"

datatype js_error = Error string

fun message :: "js_error \<Rightarrow> string" where
  "message (Error m) = m"

text \<open>The actions of the \<open>users\<close> slice, as the store receives them.\<close>

datatype action =
    ClearUser
  | ClearErrors
  | FetchByIdPending
  | FetchByIdFulfilled user
  | FetchByIdRejected "string option"
  | FetchPostsPending
  | FetchPostsFulfilled "post list"
  | FetchPostsRejected "string option"

datatype unwrap_error = RejectedPayload string | RejectedError js_error

datatype event =
    Fetch string
  | ConsoleLog string
  | ConsoleError string unwrap_error
  | Dispatch action

text \<open>
  The world a call runs in. \<open>random_seq k\<close> is what the \<open>k\<close>-th call of \<open>Math.random()\<close>
  returns; \<open>now_ms k\<close> and \<open>now_iso k\<close> are what \<open>Date.now()\<close> and
  \<open>new Date().toISOString()\<close> give at the \<open>k\<close>-th reading of the clock. The trace
  records, in order, every fetch, console output and dispatched action. Timers (the
  artificial delays) only postpone a continuation and are left out. Products with a random
  draw are taken in exact arithmetic.
\<close>

record world =
  users_endpoint :: "string \<Rightarrow> user fetch_outcome"
  posts_endpoint :: "string \<Rightarrow> post list fetch_outcome"
  random_seq :: "nat \<Rightarrow> real"
  random_calls :: nat
  now_ms :: "nat \<Rightarrow> int"
  now_iso :: "nat \<Rightarrow> string"
  clock_reads :: nat
  trace :: "event list"

definition Math_random :: "world \<Rightarrow> real \<times> world" where
  "Math_random w = (random_seq w (random_calls w), w\<lparr>random_calls := Suc (random_calls w)\<rparr>)"

definition Date_now :: "world \<Rightarrow> int \<times> world" where
  "Date_now w = (now_ms w (clock_reads w), w\<lparr>clock_reads := Suc (clock_reads w)\<rparr>)"

definition new_Date_toISOString :: "world \<Rightarrow> string \<times> world" where
  "new_Date_toISOString w = (now_iso w (clock_reads w), w\<lparr>clock_reads := Suc (clock_reads w)\<rparr>)"

definition emit :: "event \<Rightarrow> world \<Rightarrow> world" where
  "emit e w = w\<lparr>trace := trace w @ [e]\<rparr>"

text \<open>The contract of \<open>Math.random()\<close>, for the next draw: it lies in \<open>[0, 1)\<close>.\<close>

definition next_draw :: "world \<Rightarrow> real" where
  "next_draw w = random_seq w (random_calls w)"

definition unit_draw :: "world \<Rightarrow> bool" where
  "unit_draw w = (0 \<le> next_draw w \<and> next_draw w < 1)"


section \<open>Fixture generator (mocks/server.ts)\<close>


definition names :: "string list" where
  "names = [''Alex Johnson'', ''Sam Wilson'', ''Taylor Brown'', ''Jordan Davis'', ''Casey Miller'']"

definition domains :: "string list" where
  "domains = [''example.com'', ''test.org'', ''demo.net'', ''sample.io'', ''mock.dev'']"

definition generateMockUser :: "int \<Rightarrow> world \<Rightarrow> user \<times> world" where
  "generateMockUser i w =
     (let name = js_or (js_index names (js_rem i (int (length names)))) (''User '' @ show_int i);
          email = replace_first (CHR '' '') (CHR ''.'') (toLowerCase name) @ ''@''
                    @ js_template (js_index domains (js_rem i (int (length domains))));
          (r, w1) = Math_random w;
          (d, w2) = new_Date_toISOString w1
      in (\<lparr>user_id = i, user_name = name, user_email = email,
           user_phone = None, user_website = None, user_company = None,
           user_posts = Some (\<lfloor>r * 20\<rfloor> + 1), user_createdAt = Some d\<rparr>, w2))"

definition titles :: "string list" where
  "titles = [''Understanding React Hooks'', ''Redux Best Practices'',
     ''Building Modern Web Apps'', ''JavaScript ES6 Features'', ''Async Programming Patterns'']"

definition bodies :: "string list" where
  "bodies = [''This is a comprehensive guide to understanding the concepts...'',
     ''Learn the fundamental principles and best practices...'',
     ''A deep dive into modern development techniques...'',
     ''Exploring the latest features and improvements...'',
     ''Practical examples and real-world applications...'']"

text \<open>
  \<open>title\<close> and \<open>body\<close> are read from the arrays without a fallback; the interface types
  them as strings, and an index outside the array is rendered here as \<open>''undefined''\<close>.
\<close>

definition generateMockPost :: "int \<Rightarrow> int \<Rightarrow> world \<Rightarrow> post \<times> world" where
  "generateMockPost userId postId w =
     (let (d, w1) = new_Date_toISOString w
      in (\<lparr>post_id = postId, post_userId = userId,
           post_title = js_template (js_index titles (js_rem postId (int (length titles)))),
           post_body = js_template (js_index bodies (js_rem postId (int (length bodies)))),
           post_createdAt = Some d\<rparr>, w1))"


section \<open>Mock API (demos/async-thunks/ThunkDemo.tsx)\<close>

definition users_url :: "int \<Rightarrow> string" where
  "users_url i = MOCK_SERVER_URL @ ''/users/'' @ show_int i"

definition posts_url :: "int \<Rightarrow> string" where
  "posts_url userId = MOCK_SERVER_URL @ ''/posts?userId='' @ show_int userId"

definition using_generated :: event where
  "using_generated = ConsoleLog ''Using generated mock data''"

text \<open>The last statement of \<open>mockApi.fetchUser\<close>: \<open>return generateMockUser(id)\<close>.\<close>

definition return_generated_user :: "int \<Rightarrow> world \<Rightarrow> (js_error + user) \<times> world" where
  "return_generated_user i w = (let (u, w1) = generateMockUser i w in (Inr u, w1))"

text \<open>
  \<open>mockApi.fetchUser\<close>. The sentinel test comes before the \<open>try\<close>, so its error leaves
  the function. Inside the \<open>try\<close>, a rejected \<open>fetch\<close> and a rejected
  \<open>response.json()\<close> are caught and logged; a response that is not ok falls through
  silently.
\<close>

definition mockApi_fetchUser :: "int \<Rightarrow> world \<Rightarrow> (js_error + user) \<times> world" where
  "mockApi_fetchUser i w =
     (if i > 10 then (Inl (Error ''User not found''), w)
      else
        let w1 = emit (Fetch (users_url i)) w in
        case users_endpoint w1 (users_url i) of
          NetworkError \<Rightarrow> return_generated_user i (emit using_generated w1)
        | Response ok b \<Rightarrow>
            if ok then
              (case b of
                 Json u \<Rightarrow> (Inr u, w1)
               | SyntaxError \<Rightarrow> return_generated_user i (emit using_generated w1))
            else return_generated_user i w1)"

text \<open>The loop of \<open>mockApi.fetchUserPosts\<close>: \<open>for (let i = 1; i <= postCount; i++)\<close>.\<close>

function push_posts :: "int \<Rightarrow> int \<Rightarrow> int \<Rightarrow> post list \<Rightarrow> world \<Rightarrow> post list \<times> world" where
  "push_posts userId postCount i posts w =
     (if i \<le> postCount then
        (let (now, w1) = Date_now w;
             (p, w2) = generateMockPost userId (now + i) w1
         in push_posts userId postCount (i + 1) (posts @ [p]) w2)
      else (posts, w))"
  by pat_completeness auto
termination
  by (relation "measure (\<lambda>(userId, postCount, i, posts, w). nat (postCount + 1 - i))") auto

declare push_posts.simps [simp del]

text \<open>The tail of \<open>mockApi.fetchUserPosts\<close>, from \<open>const posts = []\<close> on.\<close>

definition return_generated_posts :: "int \<Rightarrow> world \<Rightarrow> (js_error + post list) \<times> world" where
  "return_generated_posts userId w =
     (let (r, w1) = Math_random w;
          postCount = \<lfloor>r * 5\<rfloor> + 1;
          (posts, w2) = push_posts userId postCount 1 [] w1
      in (Inr posts, w2))"

definition mockApi_fetchUserPosts :: "int \<Rightarrow> world \<Rightarrow> (js_error + post list) \<times> world" where
  "mockApi_fetchUserPosts userId w =
     (let w1 = emit (Fetch (posts_url userId)) w in
      case posts_endpoint w1 (posts_url userId) of
        NetworkError \<Rightarrow> return_generated_posts userId (emit using_generated w1)
      | Response ok b \<Rightarrow>
          if ok then
            (case b of
               Json posts \<Rightarrow>
                 if length posts > 0 then (Inr posts, w1) else return_generated_posts userId w1
             | SyntaxError \<Rightarrow> return_generated_posts userId (emit using_generated w1))
          else return_generated_posts userId w1)"


section \<open>The users slice\<close>

record users_state =
  currentUser :: "user option"
  userPosts :: "post list"
  loading :: bool
  postsLoading :: bool
  error :: "string option"
  postsError :: "string option"

definition initialState :: users_state where
  "initialState = \<lparr>currentUser = None, userPosts = [], loading = False,
     postsLoading = False, error = None, postsError = None\<rparr>"

fun usersReducer :: "users_state \<Rightarrow> action \<Rightarrow> users_state" where
  "usersReducer state ClearUser =
     state\<lparr>currentUser := None, userPosts := [], error := None, postsError := None\<rparr>"
| "usersReducer state ClearErrors = state\<lparr>error := None, postsError := None\<rparr>"
| "usersReducer state FetchByIdPending = state\<lparr>loading := True, error := None\<rparr>"
| "usersReducer state (FetchByIdFulfilled payload) =
     state\<lparr>loading := False, currentUser := Some payload\<rparr>"
| "usersReducer state (FetchByIdRejected payload) = state\<lparr>loading := False, error := payload\<rparr>"
| "usersReducer state FetchPostsPending = state\<lparr>postsLoading := True, postsError := None\<rparr>"
| "usersReducer state (FetchPostsFulfilled payload) =
     state\<lparr>postsLoading := False, userPosts := payload\<rparr>"
| "usersReducer state (FetchPostsRejected payload) =
     state\<lparr>postsLoading := False, postsError := payload\<rparr>"

definition dispatch :: "action \<Rightarrow> users_state \<times> world \<Rightarrow> users_state \<times> world" where
  "dispatch a sw = (usersReducer (fst sw) a, emit (Dispatch a) (snd sw))"


section \<open>Async thunks\<close>

text \<open>
  What a payload creator hands back to the toolkit: a value, or \<open>rejectWithValue(m)\<close>;
  an exception that leaves the payload creator is the \<open>Inl\<close> of the sum around it.
\<close>

datatype 'a payload_result = Value 'a | RejectWithValue string

definition fetchUserById_payload :: "int \<Rightarrow> world \<Rightarrow> (js_error + user payload_result) \<times> world" where
  "fetchUserById_payload userId w =
     (case mockApi_fetchUser userId w of
        (Inr user, w1) \<Rightarrow> (Inr (Value user), w1)
      | (Inl err, w1) \<Rightarrow> (Inr (RejectWithValue (message err)), w1))"

definition fetchUserPosts_payload :: "int \<Rightarrow> world \<Rightarrow> (js_error + post list payload_result) \<times> world" where
  "fetchUserPosts_payload userId w =
     (case mockApi_fetchUserPosts userId w of
        (Inr posts, w1) \<Rightarrow> (Inr (Value posts), w1)
      | (Inl err, w1) \<Rightarrow> (Inr (RejectWithValue (message err)), w1))"

text \<open>
  The action a dispatched thunk resolves with. The toolkit never lets the promise reject:
  an exception escaping the payload creator becomes a rejected action that carries the
  error and no payload.
\<close>

datatype 'a thunk_action = Fulfilled 'a | RejectedWithValue string | RejectedWithError js_error

text \<open>
  The lifecycle of a thunk made by \<open>createAsyncThunk\<close>, as the toolkit documents it:
  dispatch \<open>pending\<close>, run the payload creator, dispatch \<open>fulfilled\<close> or \<open>rejected\<close>,
  resolve with that last action. The request id the toolkit makes for each call, and the
  draws of the random source it spends on it, are left out.
\<close>

definition createAsyncThunk ::
  "action \<Rightarrow> ('a \<Rightarrow> action) \<Rightarrow> (string option \<Rightarrow> action) \<Rightarrow>
   ('b \<Rightarrow> world \<Rightarrow> (js_error + 'a payload_result) \<times> world) \<Rightarrow>
   'b \<Rightarrow> users_state \<times> world \<Rightarrow> 'a thunk_action \<times> (users_state \<times> world)" where
  "createAsyncThunk pending fulfilled rejected payloadCreator arg sw =
     (let (s1, w1) = dispatch pending sw;
          (res, w2) = payloadCreator arg w1
      in case res of
           Inr (Value v) \<Rightarrow> (Fulfilled v, dispatch (fulfilled v) (s1, w2))
         | Inr (RejectWithValue m) \<Rightarrow> (RejectedWithValue m, dispatch (rejected (Some m)) (s1, w2))
         | Inl e \<Rightarrow> (RejectedWithError e, dispatch (rejected None) (s1, w2)))"

definition fetchUserById :: "int \<Rightarrow> users_state \<times> world \<Rightarrow> user thunk_action \<times> (users_state \<times> world)" where
  "fetchUserById = createAsyncThunk FetchByIdPending FetchByIdFulfilled FetchByIdRejected
     fetchUserById_payload"

definition fetchUserPosts ::
  "int \<Rightarrow> users_state \<times> world \<Rightarrow> post list thunk_action \<times> (users_state \<times> world)" where
  "fetchUserPosts = createAsyncThunk FetchPostsPending FetchPostsFulfilled FetchPostsRejected
     fetchUserPosts_payload"

text \<open>\<open>.unwrap()\<close>: the payload of a fulfilled action, or throws what the action was rejected with.\<close>

fun unwrap :: "'a thunk_action \<Rightarrow> unwrap_error + 'a" where
  "unwrap (Fulfilled v) = Inr v"
| "unwrap (RejectedWithValue m) = Inl (RejectedPayload m)"
| "unwrap (RejectedWithError e) = Inl (RejectedError e)"


section \<open>The chained handler\<close>

text \<open>
  \<open>handleFetchBoth\<close>. The argument is the content of the number field: \<open>None\<close> when it
  is empty, \<open>Some n\<close> when \<open>parseInt\<close> of its text is the integer \<open>n\<close>. The second
  dispatch is awaited without \<open>unwrap\<close>, so it cannot throw.
\<close>

definition handleFetchBoth :: "int option \<Rightarrow> users_state \<times> world \<Rightarrow> users_state \<times> world" where
  "handleFetchBoth userId sw =
     (case userId of
        None \<Rightarrow> sw
      | Some n \<Rightarrow>
          (let (a, sw1) = fetchUserById n sw in
             (case unwrap a of
                Inr userResult \<Rightarrow> snd (fetchUserPosts (user_id userResult) sw1)
              | Inl err \<Rightarrow> (fst sw1, emit (ConsoleError ''Failed to fetch user:'' err) (snd sw1)))))"

text \<open>Events that belong to the posts operation: its fetch and its three actions.\<close>

fun posts_event :: "event \<Rightarrow> bool" where
  "posts_event (Fetch url) = (take (length (MOCK_SERVER_URL @ ''/posts'')) url = MOCK_SERVER_URL @ ''/posts'')"
| "posts_event (Dispatch FetchPostsPending) = True"
| "posts_event (Dispatch (FetchPostsFulfilled p)) = True"
| "posts_event (Dispatch (FetchPostsRejected p)) = True"
| "posts_event e = False"


section \<open>Concrete worlds\<close>

text \<open>No server is listening; every draw is one half; the clock stands at a fixed instant.\<close>

definition offline :: world where
  "offline = \<lparr>users_endpoint = (\<lambda>url. NetworkError), posts_endpoint = (\<lambda>url. NetworkError),
     random_seq = (\<lambda>k. 1 / 2), random_calls = 0,
     now_ms = (\<lambda>k. 1700000000000), now_iso = (\<lambda>k. ''2023-11-14T22:13:20.000Z''),
     clock_reads = 0, trace = []\<rparr>"

definition user_five :: user where
  "user_five = \<lparr>user_id = 5, user_name = ''Leanne Graham'', user_email = ''leanne@example.com'',
     user_phone = None, user_website = None, user_company = None,
     user_posts = None, user_createdAt = None\<rparr>"

text \<open>
  A server whose store holds one user, with id 5: it answers the request for that user with
  the record and every other request with a 404 (whose body is never read).
\<close>

definition store_with_user_five :: world where
  "store_with_user_five = offline\<lparr>users_endpoint :=
     (\<lambda>url. if url = users_url 5 then Response True (Json user_five)
            else Response False SyntaxError)\<rparr>"



section \<open>The server behind the user endpoint\<close>

text \<open>
  Modelled from the spec: the Mock Endpoint Registry behind \<open>GET /users/:id\<close> (the
  json-server process over \<open>mocks/db.json\<close>, neither among the sources). Its
  \<open>getById\<close> returns the stored record matching \<open>id\<close>, or fails with a 404-equivalent
  when there is none. So whatever the live call for user \<open>i\<close> ends in, an ok response
  with a parsed body carries a record whose \<open>id\<close> is \<open>i\<close>.
\<close>

fun getById_contract :: "int \<Rightarrow> user fetch_outcome \<Rightarrow> bool" where
  "getById_contract i (Response True (Json u)) = (user_id u = i)"
| "getById_contract i (Response True SyntaxError) = True"
| "getById_contract i (Response False b) = True"
| "getById_contract i NetworkError = True"


section \<open>Conditions on the outcome of the live call\<close>

text \<open>
  The live call failed: \<open>fetch\<close> rejected, the response was not ok, or its body did not
  parse.
\<close>

fun live_call_failed :: "'a fetch_outcome \<Rightarrow> bool" where
  "live_call_failed NetworkError = True"
| "live_call_failed (Response False b) = True"
| "live_call_failed (Response True SyntaxError) = True"
| "live_call_failed (Response True (Json v)) = False"

text \<open>The posts call failed or returned the empty list.\<close>

definition no_posts_data :: "post list fetch_outcome \<Rightarrow> bool" where
  "no_posts_data out = (live_call_failed out \<or> out = Response True (Json []))"

text \<open>
  A post as \<open>generateMockPost\<close> makes it for a user: owned by that user, title and body
  taken from the pools by the post's own id.
\<close>

definition generated_for :: "int \<Rightarrow> post \<Rightarrow> bool" where
  "generated_for u p =
     (post_userId p = u \<and>
      post_title p = js_template (js_index titles (js_rem (post_id p) (int (length titles)))) \<and>
      post_body p = js_template (js_index bodies (js_rem (post_id p) (int (length bodies)))))"


section \<open>Basic facts about the environment and the generator\<close>

lemma trace_emit: "trace (emit e w) = trace w @ [e]"
  by (simp add: emit_def)

lemma emit_fields:
  "users_endpoint (emit e w) = users_endpoint w"
  "posts_endpoint (emit e w) = posts_endpoint w"
  "random_seq (emit e w) = random_seq w"
  "random_calls (emit e w) = random_calls w"
  "now_ms (emit e w) = now_ms w"
  "now_iso (emit e w) = now_iso w"
  "clock_reads (emit e w) = clock_reads w"
  by (simp_all add: emit_def)

lemma generateMockUser_fst:
  "fst (generateMockUser i w) =
     \<lparr>user_id = i,
      user_name = js_or (js_index names (js_rem i (int (length names)))) (''User '' @ show_int i),
      user_email = replace_first (CHR '' '') (CHR ''.'')
          (toLowerCase (js_or (js_index names (js_rem i (int (length names)))) (''User '' @ show_int i)))
          @ ''@'' @ js_template (js_index domains (js_rem i (int (length domains)))),
      user_phone = None, user_website = None, user_company = None,
      user_posts = Some (\<lfloor>next_draw w * 20\<rfloor> + 1),
      user_createdAt = Some (now_iso w (clock_reads w))\<rparr>"
  by (simp add: generateMockUser_def Math_random_def new_Date_toISOString_def next_draw_def Let_def)

lemma generateMockUser_trace: "trace (snd (generateMockUser i w)) = trace w"
  by (simp add: generateMockUser_def Math_random_def new_Date_toISOString_def Let_def)

lemma generateMockUser_emit: "fst (generateMockUser i (emit e w)) = fst (generateMockUser i w)"
  by (simp add: generateMockUser_fst next_draw_def emit_fields)


lemma generateMockPost_fst:
  "fst (generateMockPost u pid w) =
     \<lparr>post_id = pid, post_userId = u,
      post_title = js_template (js_index titles (js_rem pid (int (length titles)))),
      post_body = js_template (js_index bodies (js_rem pid (int (length bodies)))),
      post_createdAt = Some (now_iso w (clock_reads w))\<rparr>"
  by (simp add: generateMockPost_def new_Date_toISOString_def Let_def)

lemma generateMockPost_trace: "trace (snd (generateMockPost u pid w)) = trace w"
  by (simp add: generateMockPost_def new_Date_toISOString_def Let_def)

lemma Date_now_trace: "trace (snd (Date_now w)) = trace w"
  by (simp add: Date_now_def)

lemma push_posts_step:
  "i \<le> c \<Longrightarrow> push_posts u c i acc w =
     push_posts u c (i + 1)
       (acc @ [fst (generateMockPost u (fst (Date_now w) + i) (snd (Date_now w)))])
       (snd (generateMockPost u (fst (Date_now w) + i) (snd (Date_now w))))"
  by (subst push_posts.simps) (simp add: Let_def split_beta)

lemma push_posts_stop: "\<not> i \<le> c \<Longrightarrow> push_posts u c i acc w = (acc, w)"
  by (subst push_posts.simps) simp

lemma push_posts_length:
  "length (fst (push_posts u c i acc w)) = length acc + nat (c + 1 - i)"
proof (induction u c i acc w rule: push_posts.induct)
  case (1 u c i acc w)
  show ?case
  proof (cases "i \<le> c")
    case True
    have "length (fst (push_posts u c i acc w)) = length acc + 1 + nat (c + 1 - (i + 1))"
      using "1.IH" [OF True refl prod.collapse refl prod.collapse]
      by (simp add: push_posts_step [OF True])
    also have "\<dots> = length acc + nat (c + 1 - i)"
      using True by simp
    finally show ?thesis .
  next
    case False
    then show ?thesis by (simp add: push_posts_stop)
  qed
qed

lemma push_posts_trace: "trace (snd (push_posts u c i acc w)) = trace w"
proof (induction u c i acc w rule: push_posts.induct)
  case (1 u c i acc w)
  show ?case
  proof (cases "i \<le> c")
    case True
    show ?thesis
      using "1.IH" [OF True refl prod.collapse refl prod.collapse]
      by (simp add: push_posts_step [OF True] generateMockPost_trace Date_now_trace)
  next
    case False
    then show ?thesis by (simp add: push_posts_stop)
  qed
qed

lemma generated_for_generateMockPost: "generated_for u (fst (generateMockPost u pid w))"
  by (simp add: generated_for_def generateMockPost_fst)

lemma push_posts_generated:
  "list_all (generated_for u) acc \<Longrightarrow> list_all (generated_for u) (fst (push_posts u c i acc w))"
proof (induction u c i acc w rule: push_posts.induct)
  case (1 u c i acc w)
  show ?case
  proof (cases "i \<le> c")
    case True
    show ?thesis
      using "1.IH" [OF True refl prod.collapse refl prod.collapse] "1.prems"
      by (simp add: push_posts_step [OF True] generated_for_generateMockPost)
  next
    case False
    then show ?thesis using "1.prems" by (simp add: push_posts_stop)
  qed
qed

lemma floor_draw_bounds:
  fixes r :: real
  assumes "0 \<le> r" "r < 1" "0 < n"
  shows "0 \<le> \<lfloor>r * of_int n\<rfloor> \<and> \<lfloor>r * of_int n\<rfloor> < n"
proof -
  have "0 \<le> r * of_int n" using assms by simp
  moreover have "r * of_int n < of_int n" using assms by simp
  ultimately show ?thesis by (simp add: floor_less_iff)
qed

lemma return_generated_posts_fst:
  "fst (return_generated_posts u w) =
     Inr (fst (push_posts u (\<lfloor>next_draw w * 5\<rfloor> + 1) 1 [] (snd (Math_random w))))"
  by (simp add: return_generated_posts_def Let_def split_beta Math_random_def next_draw_def)

lemma return_generated_posts_trace: "trace (snd (return_generated_posts u w)) = trace w"
  by (simp add: return_generated_posts_def Let_def split_beta push_posts_trace Math_random_def)

lemma next_draw_emit: "next_draw (emit e w) = next_draw w"
  by (simp add: next_draw_def emit_fields)

lemma unit_draw_emit: "unit_draw (emit e w) = unit_draw w"
  by (simp add: unit_draw_def next_draw_emit)

lemma mockApi_fetchUser_fallback:
  assumes "i \<le> 10" "live_call_failed (users_endpoint w (users_url i))"
  shows "fst (mockApi_fetchUser i w) = Inr (fst (generateMockUser i w))"
proof (cases "users_endpoint w (users_url i)")
  case NetworkError
  then show ?thesis using assms
    by (simp add: mockApi_fetchUser_def Let_def emit_fields return_generated_user_def
        split_beta generateMockUser_emit)
next
  case (Response ok b)
  then show ?thesis using assms
    by (cases ok; cases b)
      (simp_all add: mockApi_fetchUser_def Let_def emit_fields return_generated_user_def
        split_beta generateMockUser_emit)
qed

lemma mockApi_fetchUser_live:
  assumes "i \<le> 10" "users_endpoint w (users_url i) = Response True (Json u)"
  shows "fst (mockApi_fetchUser i w) = Inr u"
  using assms by (simp add: mockApi_fetchUser_def Let_def emit_fields)

lemma live_call_failed_cases:
  "live_call_failed out \<or> (\<exists>v. out = Response True (Json v))"
proof (cases out)
  case NetworkError
  then show ?thesis by simp
next
  case (Response ok b)
  then show ?thesis by (cases ok; cases b) simp_all
qed

lemma fetchUserById_payload_Inr: "\<exists>r. fst (fetchUserById_payload i w) = Inr r"
  by (cases "mockApi_fetchUser i w") (auto simp: fetchUserById_payload_def split: sum.splits)

lemma fetchUserPosts_payload_Inr: "\<exists>r. fst (fetchUserPosts_payload i w) = Inr r"
  by (cases "mockApi_fetchUserPosts i w") (auto simp: fetchUserPosts_payload_def split: sum.splits)

lemma createAsyncThunk_two_shapes:
  assumes "\<And>w. \<exists>r. fst (pc arg w) = Inr r"
  shows "(\<exists>v. fst (createAsyncThunk p f r pc arg sw) = Fulfilled v) \<or>
         (\<exists>m. fst (createAsyncThunk p f r pc arg sw) = RejectedWithValue m)"
proof -
  obtain s1 w1 where d: "dispatch p sw = (s1, w1)" by (cases "dispatch p sw")
  obtain res w2 where pc: "pc arg w1 = (res, w2)" by (cases "pc arg w1")
  from assms [of w1] pc obtain x where "res = Inr x" by auto
  then show ?thesis
    by (cases x) (simp_all add: createAsyncThunk_def d pc)
qed

lemma mockApi_fetchUserPosts_fallback:
  assumes "no_posts_data (posts_endpoint w (posts_url u))"
  shows "\<exists>w'. mockApi_fetchUserPosts u w = return_generated_posts u w' \<and>
              next_draw w' = next_draw w"
proof (cases "posts_endpoint w (posts_url u)")
  case NetworkError
  then have "mockApi_fetchUserPosts u w =
      return_generated_posts u (emit using_generated (emit (Fetch (posts_url u)) w))"
    by (simp add: mockApi_fetchUserPosts_def Let_def emit_fields)
  then show ?thesis by (metis next_draw_emit)
next
  case (Response ok b)
  show ?thesis
  proof (cases ok)
    case False
    with Response have "mockApi_fetchUserPosts u w =
        return_generated_posts u (emit (Fetch (posts_url u)) w)"
      by (simp add: mockApi_fetchUserPosts_def Let_def emit_fields)
    then show ?thesis by (metis next_draw_emit)
  next
    case True
    show ?thesis
    proof (cases b)
      case SyntaxError
      with Response True have "mockApi_fetchUserPosts u w =
          return_generated_posts u (emit using_generated (emit (Fetch (posts_url u)) w))"
        by (simp add: mockApi_fetchUserPosts_def Let_def emit_fields)
      then show ?thesis by (metis next_draw_emit)
    next
      case (Json ps)
      with Response True assms have "ps = []"
        by (simp add: no_posts_data_def)
      with Response True Json have "mockApi_fetchUserPosts u w =
          return_generated_posts u (emit (Fetch (posts_url u)) w)"
        by (simp add: mockApi_fetchUserPosts_def Let_def emit_fields)
      then show ?thesis by (metis next_draw_emit)
    qed
  qed
qed

lemma return_generated_posts_result:
  assumes "unit_draw w"
  shows "\<exists>posts. fst (return_generated_posts u w) = Inr posts \<and>
           int (length posts) = \<lfloor>next_draw w * 5\<rfloor> + 1 \<and>
           1 \<le> length posts \<and> length posts \<le> 5 \<and>
           list_all (generated_for u) posts"
proof -
  let ?c = "\<lfloor>next_draw w * 5\<rfloor> + 1"
  let ?posts = "fst (push_posts u ?c 1 [] (snd (Math_random w)))"
  have b: "0 \<le> \<lfloor>next_draw w * 5\<rfloor> \<and> \<lfloor>next_draw w * 5\<rfloor> < 5"
    using floor_draw_bounds [of "next_draw w" 5] assms by (simp add: unit_draw_def)
  have len: "length ?posts = nat ?c"
    by (simp add: push_posts_length)
  have n: "int (length ?posts) = ?c \<and> 1 \<le> length ?posts \<and> length ?posts \<le> 5"
    unfolding len using b by linarith
  have g: "list_all (generated_for u) ?posts"
    by (rule push_posts_generated) simp
  have "fst (return_generated_posts u w) = Inr ?posts"
    by (rule return_generated_posts_fst)
  with n g show ?thesis by blast
qed



lemma js_rem_pool: "0 \<le> i \<or> i mod 5 = 0 \<Longrightarrow> js_rem i 5 = i mod 5"
proof (cases "0 \<le> i")
  case True
  then show ?thesis by (cases "i = 0") (simp_all add: js_rem_def)
next
  case False
  assume "0 \<le> i \<or> i mod 5 = 0"
  with False have d: "5 dvd i" by (simp add: dvd_eq_mod_eq_0)
  then have "5 dvd \<bar>i\<bar>" by simp
  then have "\<bar>i\<bar> mod 5 = 0" by (simp only: dvd_eq_mod_eq_0)
  with d show ?thesis by (simp add: js_rem_def dvd_eq_mod_eq_0)
qed

lemma js_rem_negative: "i < 0 \<Longrightarrow> i mod 5 \<noteq> 0 \<Longrightarrow> js_rem i 5 < 0"
proof -
  assume neg: "i < 0" and nz: "i mod 5 \<noteq> 0"
  have "\<bar>i\<bar> = - i" using neg by simp
  moreover have "0 < (- i) mod 5" using nz by presburger
  ultimately have "0 < \<bar>i\<bar> mod 5" by simp
  with neg show ?thesis by (simp add: js_rem_def)
qed

lemma pool_cases: "(k::int) mod 5 = 0 \<or> k mod 5 = 1 \<or> k mod 5 = 2 \<or> k mod 5 = 3 \<or> k mod 5 = 4"
  by presburger

lemma pool_name:
  assumes "k = 0 \<or> k = 1 \<or> k = 2 \<or> k = 3 \<or> k = (4::int)"
  shows "js_or (js_index names k) d = names ! nat k"
  using assms by (auto simp: js_or_def js_index_def names_def)

lemma pool_domain:
  assumes "k = 0 \<or> k = 1 \<or> k = 2 \<or> k = 3 \<or> k = (4::int)"
  shows "js_template (js_index domains k) = domains ! nat k"
  using assms by (auto simp: js_template_def js_index_def domains_def)

lemma pool_name_dots:
  assumes "k = 0 \<or> k = 1 \<or> k = 2 \<or> k = 3 \<or> k = (4::int)"
  shows "replace_first (CHR '' '') (CHR ''.'') (toLowerCase (names ! nat k))
           = spaces_to_dots (toLowerCase (names ! nat k))"
  using assms
  by (auto simp: names_def toLowerCase_def toLowerChar_def upper_letters_def lower_letters_def
      spaces_to_dots_def)

lemma users_fetch_not_posts_event: "\<not> posts_event (Fetch (users_url i))"
  by (simp add: users_url_def MOCK_SERVER_URL_def)

lemma using_generated_not_posts_event: "\<not> posts_event using_generated"
  by (simp add: using_generated_def)

lemma return_generated_user_trace: "trace (snd (return_generated_user i w)) = trace w"
  by (simp add: return_generated_user_def split_beta generateMockUser_trace)

lemma mockApi_fetchUser_no_posts_event:
  "filter posts_event (trace (snd (mockApi_fetchUser i w))) = filter posts_event (trace w)"
proof (cases "i > 10")
  case True
  then show ?thesis by (simp add: mockApi_fetchUser_def)
next
  case False
  show ?thesis
  proof (cases "users_endpoint w (users_url i)")
    case NetworkError
    with False show ?thesis
      by (simp add: mockApi_fetchUser_def Let_def emit_fields return_generated_user_trace
          trace_emit users_fetch_not_posts_event using_generated_not_posts_event
          del: posts_event.simps)
  next
    case (Response ok b)
    with False show ?thesis
      by (cases ok; cases b)
        (simp_all add: mockApi_fetchUser_def Let_def emit_fields return_generated_user_trace
          trace_emit users_fetch_not_posts_event using_generated_not_posts_event
          del: posts_event.simps)
  qed
qed

lemma mockApi_fetchUserPosts_trace:
  "\<exists>rest. trace (snd (mockApi_fetchUserPosts u w)) = trace w @ Fetch (posts_url u) # rest"
proof (cases "posts_endpoint w (posts_url u)")
  case NetworkError
  then show ?thesis
    by (simp add: mockApi_fetchUserPosts_def Let_def emit_fields return_generated_posts_trace
        trace_emit)
next
  case (Response ok b)
  then show ?thesis
    by (cases ok; cases b)
      (simp_all add: mockApi_fetchUserPosts_def Let_def emit_fields return_generated_posts_trace
        trace_emit)
qed

lemma fetchUserById_unfold:
  "fetchUserById n (s, w) =
    (case mockApi_fetchUser n (emit (Dispatch FetchByIdPending) w) of
       (Inr u, w2) \<Rightarrow>
         (Fulfilled u,
          usersReducer (usersReducer s FetchByIdPending) (FetchByIdFulfilled u),
          emit (Dispatch (FetchByIdFulfilled u)) w2)
     | (Inl e, w2) \<Rightarrow>
         (RejectedWithValue (message e),
          usersReducer (usersReducer s FetchByIdPending) (FetchByIdRejected (Some (message e))),
          emit (Dispatch (FetchByIdRejected (Some (message e)))) w2))"
  by (simp add: fetchUserById_def createAsyncThunk_def dispatch_def fetchUserById_payload_def
      split: prod.splits sum.splits)

lemma fetchUserById_fst:
  "fst (fetchUserById n (s, w)) =
    (case fst (mockApi_fetchUser n (emit (Dispatch FetchByIdPending) w)) of
       Inr u \<Rightarrow> Fulfilled u
     | Inl e \<Rightarrow> RejectedWithValue (message e))"
  by (simp add: fetchUserById_unfold split: prod.splits sum.splits)

lemma fetchUserPosts_unfold:
  "fetchUserPosts n (s, w) =
    (case mockApi_fetchUserPosts n (emit (Dispatch FetchPostsPending) w) of
       (Inr ps, w2) \<Rightarrow>
         (Fulfilled ps,
          usersReducer (usersReducer s FetchPostsPending) (FetchPostsFulfilled ps),
          emit (Dispatch (FetchPostsFulfilled ps)) w2)
     | (Inl e, w2) \<Rightarrow>
         (RejectedWithValue (message e),
          usersReducer (usersReducer s FetchPostsPending) (FetchPostsRejected (Some (message e))),
          emit (Dispatch (FetchPostsRejected (Some (message e)))) w2))"
  by (simp add: fetchUserPosts_def createAsyncThunk_def dispatch_def fetchUserPosts_payload_def
      split: prod.splits sum.splits)

lemma fetchUserPosts_trace:
  "\<exists>rest. trace (snd (snd (fetchUserPosts u sw))) =
      trace (snd sw) @ Dispatch FetchPostsPending # Fetch (posts_url u) # rest"
proof -
  obtain s w where sw: "sw = (s, w)" by (cases sw)
  obtain r w2 where m: "mockApi_fetchUserPosts u (emit (Dispatch FetchPostsPending) w) = (r, w2)"
    by (cases "mockApi_fetchUserPosts u (emit (Dispatch FetchPostsPending) w)")
  from mockApi_fetchUserPosts_trace [of u "emit (Dispatch FetchPostsPending) w"] m
  obtain rest where t: "trace w2 = trace w @ Dispatch FetchPostsPending # Fetch (posts_url u) # rest"
    by (auto simp: trace_emit)
  show ?thesis
    by (cases r) (simp_all add: sw fetchUserPosts_unfold m trace_emit t)
qed


section \<open>The sentinel: identifiers above ten\<close>

text \<open>
  Claim C1. For every integer id greater than 10, \<open>mockApi.fetchUser\<close> fails with an
  error whose message is exactly "User not found" and leaves the world untouched: no fetch
  is issued. The \<open>fetchUserById\<close> thunk resolves with a rejected action whose payload is
  that message, the slice stores it in \<open>error\<close>, and the only effects are the two
  dispatched actions.
\<close>

theorem fetchUser_above_threshold:
  "10 < i \<Longrightarrow>
     mockApi_fetchUser i w = (Inl (Error ''User not found''), w) \<and>
     fst (fetchUserById i (s, w)) = RejectedWithValue ''User not found'' \<and>
     error (fst (snd (fetchUserById i (s, w)))) = Some ''User not found'' \<and>
     trace (snd (snd (fetchUserById i (s, w)))) =
       trace w @ [Dispatch FetchByIdPending, Dispatch (FetchByIdRejected (Some ''User not found''))]"
  by (simp add: mockApi_fetchUser_def fetchUserById_def createAsyncThunk_def
      fetchUserById_payload_def dispatch_def trace_emit)

theorem fetchUser_above_threshold_witness:
  "(10::int) < 11 \<and>
     mockApi_fetchUser 11 offline = (Inl (Error ''User not found''), offline) \<and>
     fst (fetchUserById 11 (initialState, offline)) = RejectedWithValue ''User not found'' \<and>
     error (fst (snd (fetchUserById 11 (initialState, offline)))) = Some ''User not found'' \<and>
     trace (snd (snd (fetchUserById 11 (initialState, offline)))) =
       trace offline @ [Dispatch FetchByIdPending, Dispatch (FetchByIdRejected (Some ''User not found''))]"
  using fetchUser_above_threshold [of 11 offline initialState] by simp


section \<open>Repeated generation\<close>

text \<open>
  Claim C6. For every integer id, two calls of \<open>generateMockUser(id)\<close>, in whatever
  worlds they run, return the same \<open>id\<close>, \<open>name\<close> and \<open>email\<close>. The \<open>posts\<close> and
  \<open>createdAt\<close> fields need not agree: there are two worlds, both with a draw in
  \<open>[0, 1)\<close>, in which they differ.
\<close>

theorem generateMockUser_repeatable:
  "user_id (fst (generateMockUser i w1)) = user_id (fst (generateMockUser i w2)) \<and>
   user_name (fst (generateMockUser i w1)) = user_name (fst (generateMockUser i w2)) \<and>
   user_email (fst (generateMockUser i w1)) = user_email (fst (generateMockUser i w2)) \<and>
   (\<exists>v1 v2. unit_draw v1 \<and> unit_draw v2 \<and>
      user_posts (fst (generateMockUser i v1)) \<noteq> user_posts (fst (generateMockUser i v2)) \<and>
      user_createdAt (fst (generateMockUser i v1)) \<noteq> user_createdAt (fst (generateMockUser i v2)))"
proof -
  have same:
    "user_id (fst (generateMockUser i w1)) = user_id (fst (generateMockUser i w2)) \<and>
     user_name (fst (generateMockUser i w1)) = user_name (fst (generateMockUser i w2)) \<and>
     user_email (fst (generateMockUser i w1)) = user_email (fst (generateMockUser i w2))"
    by (simp add: generateMockUser_fst)
  let ?v2 = "offline\<lparr>random_seq := (\<lambda>k. 0), now_iso := (\<lambda>k. ''2023-11-14T22:13:21.000Z'')\<rparr>"
  have "unit_draw offline" "unit_draw ?v2"
    by (simp_all add: unit_draw_def next_draw_def offline_def)
  moreover have "user_posts (fst (generateMockUser i offline))
      \<noteq> user_posts (fst (generateMockUser i ?v2))"
    by (simp add: generateMockUser_fst next_draw_def offline_def)
  moreover have "user_createdAt (fst (generateMockUser i offline))
      \<noteq> user_createdAt (fst (generateMockUser i ?v2))"
    by (simp add: generateMockUser_fst offline_def)
  ultimately show ?thesis using same by blast
qed


section \<open>The slice\<close>

text \<open>
  Claim C10. In every state the \<open>clearUser\<close> reducer sets \<open>currentUser\<close> to null,
  \<open>userPosts\<close> to the empty list and both \<open>error\<close> and \<open>postsError\<close> to null, and
  leaves \<open>loading\<close> and \<open>postsLoading\<close> as they were; in particular a clear issued
  after a pending action leaves the loading flag raised.
\<close>

theorem clearUser_frame:
  "currentUser (usersReducer s ClearUser) = None \<and>
   userPosts (usersReducer s ClearUser) = [] \<and>
   error (usersReducer s ClearUser) = None \<and>
   postsError (usersReducer s ClearUser) = None \<and>
   loading (usersReducer s ClearUser) = loading s \<and>
   postsLoading (usersReducer s ClearUser) = postsLoading s \<and>
   loading (usersReducer (usersReducer s FetchByIdPending) ClearUser) \<and>
   postsLoading (usersReducer (usersReducer s FetchPostsPending) ClearUser)"
  by simp


section \<open>Identifiers up to ten\<close>

text \<open>
  Claim C2. For every integer id in \<open>[1, 10]\<close>, with the server keeping the contract of
  \<open>getById\<close>, \<open>mockApi.fetchUser(id)\<close> succeeds, never fails, and the record it
  returns has the requested id in its \<open>id\<close> field: it is the stored record when the
  live call answers with one, and \<open>generateMockUser(id)\<close> when the live call failed.
\<close>

theorem fetchUser_in_range:
  "1 \<le> i \<Longrightarrow> i \<le> 10 \<Longrightarrow> getById_contract i (users_endpoint w (users_url i)) \<Longrightarrow>
   (\<exists>u. fst (mockApi_fetchUser i w) = Inr u \<and> user_id u = i \<and>
        (if live_call_failed (users_endpoint w (users_url i))
         then u = fst (generateMockUser i w)
         else users_endpoint w (users_url i) = Response True (Json u)))"
proof -
  assume le: "i \<le> 10"
  assume c: "getById_contract i (users_endpoint w (users_url i))"
  show ?thesis
  proof (cases "live_call_failed (users_endpoint w (users_url i))")
    case True
    then show ?thesis
      using mockApi_fetchUser_fallback [OF le True] by (simp add: generateMockUser_fst)
  next
    case False
    then obtain v where v: "users_endpoint w (users_url i) = Response True (Json v)"
      using live_call_failed_cases [of "users_endpoint w (users_url i)"] by blast
    with c have "user_id v = i" by simp
    with v show ?thesis
      using mockApi_fetchUser_live [OF le v] by simp
  qed
qed

theorem fetchUser_in_range_witness:
  "((1::int) \<le> 5 \<and> (5::int) \<le> 10 \<and>
    getById_contract 5 (users_endpoint offline (users_url 5))) \<and>
   (\<exists>u. fst (mockApi_fetchUser 5 offline) = Inr u \<and> user_id u = 5 \<and>
        u = fst (generateMockUser 5 offline)) \<and>
   getById_contract 5 (users_endpoint store_with_user_five (users_url 5)) \<and>
   fst (mockApi_fetchUser 5 store_with_user_five) = Inr user_five \<and> user_id user_five = 5"
proof -
  have h1: "getById_contract 5 (users_endpoint offline (users_url 5))"
    by (simp add: offline_def)
  have e2: "users_endpoint store_with_user_five (users_url 5) = Response True (Json user_five)"
    by (simp add: store_with_user_five_def)
  have h2: "getById_contract 5 (users_endpoint store_with_user_five (users_url 5))"
    by (simp add: e2 user_five_def)
  have f1: "live_call_failed (users_endpoint offline (users_url 5))"
    by (simp add: offline_def)
  have a: "\<exists>u. fst (mockApi_fetchUser 5 offline) = Inr u \<and> user_id u = 5 \<and>
        u = fst (generateMockUser 5 offline)"
    using fetchUser_in_range [of 5 offline, OF _ _ h1] f1 by simp
  have b: "fst (mockApi_fetchUser 5 store_with_user_five) = Inr user_five"
    using fetchUser_in_range [of 5 store_with_user_five, OF _ _ h2] by (simp add: e2)
  have c: "user_id user_five = 5" by (simp add: user_five_def)
  from h1 h2 a b c show ?thesis by simp
qed


section \<open>Outcome shapes of the thunks\<close>

text \<open>
  Claim C4. For every id and every world, each of the two thunks resolves with a fulfilled
  action carrying a value or with a rejected action carrying a message string; neither
  payload creator lets an exception escape.
\<close>

theorem thunks_two_shapes:
  "((\<exists>u. fst (fetchUserById i sw) = Fulfilled u) \<or>
    (\<exists>m. fst (fetchUserById i sw) = RejectedWithValue m)) \<and>
   ((\<exists>ps. fst (fetchUserPosts i sw) = Fulfilled ps) \<or>
    (\<exists>m. fst (fetchUserPosts i sw) = RejectedWithValue m)) \<and>
   (\<exists>r. fst (fetchUserById_payload i w) = Inr r) \<and>
   (\<exists>r. fst (fetchUserPosts_payload i w) = Inr r)"
  unfolding fetchUserById_def fetchUserPosts_def
  using createAsyncThunk_two_shapes [of fetchUserById_payload i, OF fetchUserById_payload_Inr]
    createAsyncThunk_two_shapes [of fetchUserPosts_payload i, OF fetchUserPosts_payload_Inr]
    fetchUserById_payload_Inr fetchUserPosts_payload_Inr
  by blast


section \<open>Fallback to generated data\<close>

text \<open>
  Claim C5. When the live call failed and the id is not above the threshold,
  \<open>fetchUser(id)\<close> returns \<open>generateMockUser(id)\<close>. When the posts call failed or
  returned the empty list, \<open>fetchUserPosts(userId)\<close> returns a non-empty list of
  generated posts, each owned by \<open>userId\<close> (given a draw in \<open>[0, 1)\<close>).
\<close>

theorem fallback_to_generated:
  "(i \<le> 10 \<and> live_call_failed (users_endpoint w (users_url i)) \<longrightarrow>
      fst (mockApi_fetchUser i w) = Inr (fst (generateMockUser i w))) \<and>
   (unit_draw w \<and> no_posts_data (posts_endpoint w (posts_url userId)) \<longrightarrow>
      (\<exists>posts. fst (mockApi_fetchUserPosts userId w) = Inr posts \<and> posts \<noteq> [] \<and>
         list_all (generated_for userId) posts \<and>
         list_all (\<lambda>p. post_userId p = userId) posts))"
proof (intro conjI impI)
  assume "i \<le> 10 \<and> live_call_failed (users_endpoint w (users_url i))"
  then show "fst (mockApi_fetchUser i w) = Inr (fst (generateMockUser i w))"
    by (simp add: mockApi_fetchUser_fallback)
next
  assume a: "unit_draw w \<and> no_posts_data (posts_endpoint w (posts_url userId))"
  then obtain w' where w': "mockApi_fetchUserPosts userId w = return_generated_posts userId w'"
      "next_draw w' = next_draw w"
    using mockApi_fetchUserPosts_fallback by blast
  with a have "unit_draw w'" by (simp add: unit_draw_def)
  from return_generated_posts_result [OF this, of userId] obtain posts where
    p: "fst (return_generated_posts userId w') = Inr posts" "1 \<le> length posts"
      "list_all (generated_for userId) posts"
    by blast
  from p(3) have "list_all (\<lambda>p. post_userId p = userId) posts"
    by (simp add: list_all_iff generated_for_def)
  with p w' show "\<exists>posts. fst (mockApi_fetchUserPosts userId w) = Inr posts \<and> posts \<noteq> [] \<and>
         list_all (generated_for userId) posts \<and> list_all (\<lambda>p. post_userId p = userId) posts"
    by auto
qed

theorem fallback_to_generated_witness:
  "((5::int) \<le> 10 \<and> live_call_failed (users_endpoint offline (users_url 5))) \<and>
   fst (mockApi_fetchUser 5 offline) = Inr (fst (generateMockUser 5 offline)) \<and>
   (unit_draw offline \<and> no_posts_data (posts_endpoint offline (posts_url 5))) \<and>
   (\<exists>posts. fst (mockApi_fetchUserPosts 5 offline) = Inr posts \<and> posts \<noteq> [] \<and>
         list_all (generated_for 5) posts \<and>
         list_all (\<lambda>p. post_userId p = 5) posts)"
proof -
  have h1: "(5::int) \<le> 10 \<and> live_call_failed (users_endpoint offline (users_url 5))"
    by (simp add: offline_def)
  have h2: "unit_draw offline \<and> no_posts_data (posts_endpoint offline (posts_url 5))"
    by (simp add: offline_def unit_draw_def next_draw_def no_posts_data_def)
  show ?thesis
    using h1 h2 fallback_to_generated [of 5 offline 5] by blast
qed


section \<open>Generated identifiers\<close>




section \<open>Ranges of the randomized counts\<close>

text \<open>
  Claim C9. With a draw in \<open>[0, 1)\<close>, the \<open>posts\<close> field of \<open>generateMockUser(id)\<close>
  is an integer between 1 and 20, and the list that \<open>fetchUserPosts\<close> generates when it
  falls back holds between 1 and 5 posts.
\<close>

theorem randomized_counts_in_range:
  "(unit_draw w \<longrightarrow>
      (\<exists>n. user_posts (fst (generateMockUser i w)) = Some n \<and> 1 \<le> n \<and> n \<le> 20)) \<and>
   (unit_draw w \<and> no_posts_data (posts_endpoint w (posts_url userId)) \<longrightarrow>
      (\<exists>posts. fst (mockApi_fetchUserPosts userId w) = Inr posts \<and>
         1 \<le> length posts \<and> length posts \<le> 5))"
proof (intro conjI impI)
  assume u: "unit_draw w"
  have "0 \<le> \<lfloor>next_draw w * 20\<rfloor> \<and> \<lfloor>next_draw w * 20\<rfloor> < 20"
    using floor_draw_bounds [of "next_draw w" 20] u by (simp add: unit_draw_def)
  then show "\<exists>n. user_posts (fst (generateMockUser i w)) = Some n \<and> 1 \<le> n \<and> n \<le> 20"
    by (simp add: generateMockUser_fst)
next
  assume a: "unit_draw w \<and> no_posts_data (posts_endpoint w (posts_url userId))"
  then obtain w' where w': "mockApi_fetchUserPosts userId w = return_generated_posts userId w'"
      "next_draw w' = next_draw w"
    using mockApi_fetchUserPosts_fallback by blast
  with a have "unit_draw w'" by (simp add: unit_draw_def)
  from return_generated_posts_result [OF this, of userId] w'(1)
  show "\<exists>posts. fst (mockApi_fetchUserPosts userId w) = Inr posts \<and>
         1 \<le> length posts \<and> length posts \<le> 5"
    by auto
qed

theorem randomized_counts_in_range_witness:
  "unit_draw offline \<and>
   (\<exists>n. user_posts (fst (generateMockUser 7 offline)) = Some n \<and> 1 \<le> n \<and> n \<le> 20) \<and>
   (unit_draw offline \<and> no_posts_data (posts_endpoint offline (posts_url 7))) \<and>
   (\<exists>posts. fst (mockApi_fetchUserPosts 7 offline) = Inr posts \<and>
         1 \<le> length posts \<and> length posts \<le> 5)"
proof -
  have h1: "unit_draw offline"
    by (simp add: offline_def unit_draw_def next_draw_def)
  have h2: "no_posts_data (posts_endpoint offline (posts_url 7))"
    by (simp add: offline_def no_posts_data_def)
  show ?thesis
    using h1 h2 randomized_counts_in_range [of offline 7 7] by blast
qed


section \<open>Selection of name, domain and email\<close>

text \<open>
  Claim C7, as amended. The pools hold five names and five domains. For every integer id
  that is non-negative or a multiple of five, \<open>generateMockUser(id)\<close> takes the name and
  the domain at index \<open>id mod 5\<close> of the pools, and the email is the lowercased name with
  its spaces replaced by dots, then \<open>@\<close>, then that domain. For every other negative id
  the index is negative, no pool entry is selected, and the name is the fallback
  \<open>User <id>\<close>.
\<close>

theorem generateMockUser_selection:
  "length names = 5 \<and> length domains = 5 \<and>
   (0 \<le> i \<or> i mod 5 = 0 \<longrightarrow>
      user_name (fst (generateMockUser i w)) = names ! nat (i mod 5) \<and>
      user_email (fst (generateMockUser i w)) =
        spaces_to_dots (toLowerCase (names ! nat (i mod 5))) @ ''@'' @ domains ! nat (i mod 5)) \<and>
   (i < 0 \<and> i mod 5 \<noteq> 0 \<longrightarrow>
      user_name (fst (generateMockUser i w)) = ''User '' @ show_int i)"
proof (intro conjI impI)
  show "length names = 5" by (simp add: names_def)
  show "length domains = 5" by (simp add: domains_def)
next
  assume a: "0 \<le> i \<or> i mod 5 = 0"
  have n: "js_rem i (int (length names)) = i mod 5" "js_rem i (int (length domains)) = i mod 5"
    using js_rem_pool [OF a] by (simp_all add: names_def domains_def)
  note k = pool_cases [of i]
  show "user_name (fst (generateMockUser i w)) = names ! nat (i mod 5)"
    by (simp add: generateMockUser_fst n pool_name [OF k])
  show "user_email (fst (generateMockUser i w)) =
        spaces_to_dots (toLowerCase (names ! nat (i mod 5))) @ ''@'' @ domains ! nat (i mod 5)"
    by (simp add: generateMockUser_fst n pool_name [OF k] pool_domain [OF k] pool_name_dots [OF k])
next
  assume a: "i < 0 \<and> i mod 5 \<noteq> 0"
  then have "js_rem i (int (length names)) < 0"
    using js_rem_negative [of i] by (simp add: names_def)
  then show "user_name (fst (generateMockUser i w)) = ''User '' @ show_int i"
    by (simp add: generateMockUser_fst js_index_def js_or_def)
qed

theorem generateMockUser_selection_witness:
  "((0::int) \<le> 7 \<or> (7::int) mod 5 = 0) \<and>
   user_name (fst (generateMockUser 7 offline)) = ''Taylor Brown'' \<and>
   user_email (fst (generateMockUser 7 offline)) = ''taylor.brown@demo.net'' \<and>
   ((-1::int) < 0 \<and> (-1::int) mod 5 \<noteq> 0) \<and>
   user_name (fst (generateMockUser (-1) offline)) = ''User -1''"
proof -
  have h1: "(0::int) \<le> 7 \<or> (7::int) mod 5 = 0" by simp
  have h2: "(-1::int) < 0 \<and> (-1::int) mod 5 \<noteq> 0" by simp
  have e1: "names ! nat (7 mod 5) = ''Taylor Brown''" by (simp add: names_def)
  have e2: "spaces_to_dots (toLowerCase (names ! nat (7 mod 5))) @ ''@'' @ domains ! nat (7 mod 5)
      = ''taylor.brown@demo.net''"
    by (simp add: names_def domains_def spaces_to_dots_def toLowerCase_def toLowerChar_def
        upper_letters_def lower_letters_def)
  have e3: "''User '' @ show_int (-1) = ''User -1''"
    by (simp add: show_int_def show_nat.simps decimal_digits_def)
  from generateMockUser_selection [of 7 offline] h1 e1 e2
  have a: "user_name (fst (generateMockUser 7 offline)) = ''Taylor Brown'' \<and>
      user_email (fst (generateMockUser 7 offline)) = ''taylor.brown@demo.net''"
    by simp
  from generateMockUser_selection [of "-1" offline] h2 e3
  have b: "user_name (fst (generateMockUser (-1) offline)) = ''User -1''"
    by simp
  from h1 h2 a b show ?thesis by blast
qed

text \<open>
  Claim C7 as stated fails at id \<open>-1\<close>: the remainder is \<open>-1\<close>, the name is the
  fallback and not a pool entry, and the email ends in \<open>undefined\<close>, which is no pool
  domain.
\<close>

theorem generateMockUser_negative_counterexample:
  "user_name (fst (generateMockUser (-1) offline)) = ''User -1'' \<and>
   ''User -1'' \<notin> set names \<and>
   user_email (fst (generateMockUser (-1) offline)) = ''user.-1@undefined'' \<and>
   ''undefined'' \<notin> set domains"
  by (simp add: generateMockUser_fst js_rem_def js_index_def js_or_def js_template_def
      names_def domains_def show_int_def show_nat.simps decimal_digits_def
      toLowerCase_def toLowerChar_def upper_letters_def lower_letters_def)


section \<open>The sequential chain\<close>

text \<open>
  Claim C3. In \<open>handleFetchBoth\<close>, with \<open>first\<close> the outcome of the user fetch:
  if it is fulfilled with a user record, the handler continues with the posts thunk from
  the state the user fetch left, called with the \<open>id\<close> of that record; the fulfilled
  action is the last event before the posts operation starts, and the posts operation
  opens with its pending action and its fetch for that id. If it is rejected, the handler
  ends with the console report: the first failure is in \<open>error\<close>, no event of the posts
  operation is added to the trace and the posts fields of the store are untouched. The
  user fetch itself adds no event of the posts operation, and an empty field does nothing.
\<close>

theorem handleFetchBoth_chain:
  fixes n :: int and sw :: "users_state \<times> world"
  defines "first \<equiv> fetchUserById n sw"
  defines "final \<equiv> handleFetchBoth (Some n) sw"
  shows
    "(case fst first of
        Fulfilled u \<Rightarrow>
          final = snd (fetchUserPosts (user_id u) (snd first)) \<and>
          last (trace (snd (snd first))) = Dispatch (FetchByIdFulfilled u) \<and>
          (\<exists>rest. trace (snd final) =
             trace (snd (snd first)) @
               Dispatch FetchPostsPending # Fetch (posts_url (user_id u)) # rest)
      | RejectedWithValue m \<Rightarrow>
          final = (fst (snd first),
                   emit (ConsoleError ''Failed to fetch user:'' (RejectedPayload m)) (snd (snd first))) \<and>
          error (fst final) = Some m \<and>
          filter posts_event (trace (snd final)) = filter posts_event (trace (snd sw)) \<and>
          userPosts (fst final) = userPosts (fst sw) \<and>
          postsLoading (fst final) = postsLoading (fst sw) \<and>
          postsError (fst final) = postsError (fst sw)
      | RejectedWithError e \<Rightarrow> False) \<and>
     filter posts_event (trace (snd (snd first))) = filter posts_event (trace (snd sw)) \<and>
     handleFetchBoth None sw = sw"
proof -
  obtain s w where sw: "sw = (s, w)" by (cases sw)
  obtain r w2 where m: "mockApi_fetchUser n (emit (Dispatch FetchByIdPending) w) = (r, w2)"
    by (cases "mockApi_fetchUser n (emit (Dispatch FetchByIdPending) w)")
  have t: "filter posts_event (trace w2) = filter posts_event (trace w)"
    using mockApi_fetchUser_no_posts_event [of n "emit (Dispatch FetchByIdPending) w"] m
    by (simp add: trace_emit)
  have none: "handleFetchBoth None sw = sw"
    by (simp add: handleFetchBoth_def)
  show ?thesis
  proof (cases r)
    case (Inl e)
    then have f: "first = (RejectedWithValue (message e),
        usersReducer (usersReducer s FetchByIdPending) (FetchByIdRejected (Some (message e))),
        emit (Dispatch (FetchByIdRejected (Some (message e)))) w2)"
      by (simp add: first_def sw fetchUserById_unfold m)
    have fin: "final = (fst (snd first),
        emit (ConsoleError ''Failed to fetch user:'' (RejectedPayload (message e))) (snd (snd first)))"
      using f by (simp add: final_def handleFetchBoth_def first_def [symmetric])
    have c: "fst first = RejectedWithValue (message e)" by (simp add: f)
    have p: "filter posts_event (trace (snd (snd first))) = filter posts_event (trace (snd sw))"
      by (simp add: f sw trace_emit t)
    have q: "filter posts_event (trace (snd final)) = filter posts_event (trace (snd sw))"
      using p by (simp add: fin trace_emit)
    have st: "error (fst final) = Some (message e) \<and>
        userPosts (fst final) = userPosts (fst sw) \<and>
        postsLoading (fst final) = postsLoading (fst sw) \<and>
        postsError (fst final) = postsError (fst sw)"
      by (simp add: fin) (simp add: f sw)
    show ?thesis
      using fin q st p none by (simp add: c)
  next
    case (Inr u)
    then have f: "first = (Fulfilled u,
        usersReducer (usersReducer s FetchByIdPending) (FetchByIdFulfilled u),
        emit (Dispatch (FetchByIdFulfilled u)) w2)"
      by (simp add: first_def sw fetchUserById_unfold m)
    have fin: "final = snd (fetchUserPosts (user_id u) (snd first))"
      using f by (simp add: final_def handleFetchBoth_def first_def [symmetric])
    from fetchUserPosts_trace [of "user_id u" "snd first"]
    obtain rest where "trace (snd final) =
        trace (snd (snd first)) @ Dispatch FetchPostsPending # Fetch (posts_url (user_id u)) # rest"
      by (auto simp: fin)
    then have ex: "\<exists>rest. trace (snd final) =
        trace (snd (snd first)) @ Dispatch FetchPostsPending # Fetch (posts_url (user_id u)) # rest"
      by blast
    have l: "last (trace (snd (snd first))) = Dispatch (FetchByIdFulfilled u)"
      by (simp add: f trace_emit)
    have p: "filter posts_event (trace (snd (snd first))) = filter posts_event (trace (snd sw))"
      by (simp add: f sw trace_emit t)
    have c: "fst first = Fulfilled u" by (simp add: f)
    show ?thesis
      using fin l ex p none by (simp add: c)
  qed
qed

theorem handleFetchBoth_chain_witness:
  "fst (fetchUserById 12 (initialState, offline)) = RejectedWithValue ''User not found'' \<and>
   error (fst (handleFetchBoth (Some 12) (initialState, offline))) = Some ''User not found'' \<and>
   filter posts_event (trace (snd (handleFetchBoth (Some 12) (initialState, offline)))) = [] \<and>
   postsLoading (fst (handleFetchBoth (Some 12) (initialState, offline))) = False \<and>
   fst (fetchUserById 5 (initialState, offline)) = Fulfilled (fst (generateMockUser 5 offline)) \<and>
   (\<exists>rest. trace (snd (handleFetchBoth (Some 5) (initialState, offline))) =
      trace (snd (snd (fetchUserById 5 (initialState, offline)))) @
        Dispatch FetchPostsPending # Fetch ''http://localhost:3001/posts?userId=5'' # rest)"
proof -
  have r: "fst (fetchUserById 12 (initialState, offline)) = RejectedWithValue ''User not found''"
    by (simp add: fetchUserById_unfold mockApi_fetchUser_def)
  have "live_call_failed (users_endpoint (emit (Dispatch FetchByIdPending) offline) (users_url 5))"
    by (simp add: emit_fields) (simp add: offline_def)
  then have "fst (mockApi_fetchUser 5 (emit (Dispatch FetchByIdPending) offline)) =
      Inr (fst (generateMockUser 5 offline))"
    by (simp add: mockApi_fetchUser_fallback generateMockUser_emit)
  then have f: "fst (fetchUserById 5 (initialState, offline)) =
      Fulfilled (fst (generateMockUser 5 offline))"
    by (simp add: fetchUserById_fst)
  have u: "posts_url (user_id (fst (generateMockUser 5 offline))) = ''http://localhost:3001/posts?userId=5''"
    by (simp add: generateMockUser_fst posts_url_def MOCK_SERVER_URL_def show_int_def
        show_nat.simps decimal_digits_def)
  have t0: "trace offline = []" "postsLoading initialState = False"
    by (simp_all add: offline_def initialState_def)
  note h12 = handleFetchBoth_chain [of 12 "(initialState, offline)", unfolded r thunk_action.case]
  have a1: "error (fst (handleFetchBoth (Some 12) (initialState, offline))) = Some ''User not found''"
    using h12 by blast
  have "filter posts_event (trace (snd (handleFetchBoth (Some 12) (initialState, offline)))) =
      filter posts_event (trace (snd (initialState, offline)))"
    using h12 by blast
  then have a2: "filter posts_event (trace (snd (handleFetchBoth (Some 12) (initialState, offline)))) = []"
    by (simp add: t0)
  have "postsLoading (fst (handleFetchBoth (Some 12) (initialState, offline))) =
      postsLoading (fst (initialState, offline))"
    using h12 by blast
  then have a3: "postsLoading (fst (handleFetchBoth (Some 12) (initialState, offline))) = False"
    by (simp add: t0)
  note h5 = handleFetchBoth_chain [of 5 "(initialState, offline)", unfolded f thunk_action.case u]
  have b: "\<exists>rest. trace (snd (handleFetchBoth (Some 5) (initialState, offline))) =
      trace (snd (snd (fetchUserById 5 (initialState, offline)))) @
        Dispatch FetchPostsPending # Fetch ''http://localhost:3001/posts?userId=5'' # rest"
    using h5 by blast
  from r f a1 a2 a3 b show ?thesis by blast
qed

end
